theory Spec2Isabelle
  imports Complex_Main
begin

section \<open>CobremsGenerator: the configuration state of the radiator model\<close>

text \<open>
  The class \<^verbatim>\<open>CobremsGenerator\<close> of \<^verbatim>\<open>CobremsGenerator.hh\<close> is a plain object of
  numeric fields with inline setters. An object is a record, a method is a function from
  the object before the call to the object after it. A \<^verbatim>\<open>double\<close> is read as the real
  number it denotes: the methods defined in the header only copy an argument into a field
  or store the literals 0 and 1, so no rounding takes place in them.
\<close>

subsection \<open>Data\<close>

text \<open>\<^verbatim>\<open>struct lattice_vector { double x; double y; double z; }\<close>\<close>

record lattice_vector =
  x_lv :: real
  y_lv :: real
  z_lv :: real

text \<open>\<^verbatim>\<open>struct crystal_parameters_t\<close>; the fields \<^verbatim>\<open>Z\<close> and \<^verbatim>\<open>A\<close> carry a suffix.\<close>

record crystal_parameters_t =
  name :: string
  nsites :: int
  Z_cp :: real
  A_cp :: real
  density :: real
  lattice_constant :: real
  radiation_length :: real
  Debye_Waller_const :: real
  mosaic_spread :: real
  betaFF :: real
  ucell_site :: "lattice_vector list"
  primaryHKL :: lattice_vector

text \<open>
  \<^verbatim>\<open>double fTargetRmatrix[3][3]\<close>: nine cells of fixed position; \<open>Rij\<close> is the cell
  \<^verbatim>\<open>[i][j]\<close>.
\<close>

record Rmatrix =
  R00 :: real
  R01 :: real
  R02 :: real
  R10 :: real
  R11 :: real
  R12 :: real
  R20 :: real
  R21 :: real
  R22 :: real

text \<open>The private data members of the class, in the order of their declaration.\<close>

record CobremsGenerator =
  fTargetCrystal :: crystal_parameters_t
  fTargetThickness :: real
  fTargetThetax :: real
  fTargetThetay :: real
  fTargetThetaz :: real
  fTargetRmatrix :: Rmatrix
  fBeamEnergy :: real
  fBeamErms :: real
  fBeamEmittance :: real
  fCollimatorSpotrms :: real
  fCollimatorDistance :: real
  fCollimatorDiameter :: real
  fCollimatedFlux :: bool
  fPolarizedFlux :: bool
  fQ2theta2 :: "real list"
  fQ2weight :: "real list"

text \<open>The conditions the specification names for a failing call.\<close>

datatype error = InvalidParameter | UnknownCrystal | OutOfRangeQuery

subsection \<open>The inline setters\<close>

definition setBeamEmittance :: "real \<Rightarrow> CobremsGenerator \<Rightarrow> CobremsGenerator" where
  "setBeamEmittance emit_m_r s = s\<lparr>fBeamEmittance := emit_m_r\<rparr>"

definition setBeamEnergy :: "real \<Rightarrow> CobremsGenerator \<Rightarrow> CobremsGenerator" where
  "setBeamEnergy Ebeam_GeV s = s\<lparr>fBeamEnergy := Ebeam_GeV\<rparr>"

definition setBeamErms :: "real \<Rightarrow> CobremsGenerator \<Rightarrow> CobremsGenerator" where
  "setBeamErms Erms_GeV s = s\<lparr>fBeamErms := Erms_GeV\<rparr>"

definition setCollimatorSpotrms :: "real \<Rightarrow> CobremsGenerator \<Rightarrow> CobremsGenerator" where
  "setCollimatorSpotrms spotrms_m s = s\<lparr>fCollimatorSpotrms := spotrms_m\<rparr>"

definition setCollimatorDistance :: "real \<Rightarrow> CobremsGenerator \<Rightarrow> CobremsGenerator" where
  "setCollimatorDistance distance_m s = s\<lparr>fCollimatorDistance := distance_m\<rparr>"

definition setCollimatorDiameter :: "real \<Rightarrow> CobremsGenerator \<Rightarrow> CobremsGenerator" where
  "setCollimatorDiameter diameter_m s = s\<lparr>fCollimatorDiameter := diameter_m\<rparr>"

definition setTargetThickness :: "real \<Rightarrow> CobremsGenerator \<Rightarrow> CobremsGenerator" where
  "setTargetThickness thickness_m s = s\<lparr>fTargetThickness := thickness_m\<rparr>"

definition setTargetThetax :: "real \<Rightarrow> CobremsGenerator \<Rightarrow> CobremsGenerator" where
  "setTargetThetax thetax s = s\<lparr>fTargetThetax := thetax\<rparr>"

definition setTargetThetay :: "real \<Rightarrow> CobremsGenerator \<Rightarrow> CobremsGenerator" where
  "setTargetThetay thetay s = s\<lparr>fTargetThetay := thetay\<rparr>"

definition setTargetThetaz :: "real \<Rightarrow> CobremsGenerator \<Rightarrow> CobremsGenerator" where
  "setTargetThetaz thetaz s = s\<lparr>fTargetThetaz := thetaz\<rparr>"

definition setCollimatedFlux :: "bool \<Rightarrow> CobremsGenerator \<Rightarrow> CobremsGenerator" where
  "setCollimatedFlux flag s = s\<lparr>fCollimatedFlux := flag\<rparr>"

definition setPolarizedFlux :: "bool \<Rightarrow> CobremsGenerator \<Rightarrow> CobremsGenerator" where
  "setPolarizedFlux flag s = s\<lparr>fPolarizedFlux := flag\<rparr>"

text \<open>\<^verbatim>\<open>resetTargetOrientation\<close>: nine assignments to the cells of the matrix, row by row.\<close>

definition resetTargetOrientation :: "CobremsGenerator \<Rightarrow> CobremsGenerator" where
  "resetTargetOrientation s =
     s\<lparr>fTargetRmatrix := (fTargetRmatrix s)
          \<lparr>R00 := 1, R01 := 0, R02 := 0,
           R10 := 0, R11 := 1, R12 := 0,
           R20 := 0, R21 := 0, R22 := 1\<rparr>\<rparr>"

subsection \<open>Vocabulary of the properties\<close>

text \<open>The 3x3 identity matrix.\<close>

definition identity_Rmatrix :: Rmatrix where
  "identity_Rmatrix =
     \<lparr>R00 = 1, R01 = 0, R02 = 0,
      R10 = 0, R11 = 1, R12 = 0,
      R20 = 0, R21 = 0, R22 = 1\<rparr>"

text \<open>
  A matrix is orthonormal when its rows are unit vectors that are orthogonal to each
  other, that is when the product of the matrix with its transpose is the identity.
\<close>

definition orthonormal :: "Rmatrix \<Rightarrow> bool" where
  "orthonormal m \<longleftrightarrow>
     R00 m * R00 m + R01 m * R01 m + R02 m * R02 m = 1 \<and>
     R10 m * R10 m + R11 m * R11 m + R12 m * R12 m = 1 \<and>
     R20 m * R20 m + R21 m * R21 m + R22 m * R22 m = 1 \<and>
     R00 m * R10 m + R01 m * R11 m + R02 m * R12 m = 0 \<and>
     R00 m * R20 m + R01 m * R21 m + R02 m * R22 m = 0 \<and>
     R10 m * R20 m + R11 m * R21 m + R12 m * R22 m = 0"

text \<open>
  An object whose numeric fields are all zero, whose flags are off and whose sequences
  are empty; the concrete objects of the examples below are made from it by the setters.
\<close>

definition zero_vector :: lattice_vector where
  "zero_vector = \<lparr>x_lv = 0, y_lv = 0, z_lv = 0\<rparr>"

definition blank_crystal :: crystal_parameters_t where
  "blank_crystal =
     \<lparr>name = [], nsites = 0, Z_cp = 0, A_cp = 0, density = 0, lattice_constant = 0,
      radiation_length = 0, Debye_Waller_const = 0, mosaic_spread = 0, betaFF = 0,
      ucell_site = [], primaryHKL = zero_vector\<rparr>"

definition blank_generator :: CobremsGenerator where
  "blank_generator =
     \<lparr>fTargetCrystal = blank_crystal, fTargetThickness = 0,
      fTargetThetax = 0, fTargetThetay = 0, fTargetThetaz = 0,
      fTargetRmatrix = \<lparr>R00 = 0, R01 = 0, R02 = 0, R10 = 0, R11 = 0, R12 = 0,
                        R20 = 0, R21 = 0, R22 = 0\<rparr>,
      fBeamEnergy = 0, fBeamErms = 0, fBeamEmittance = 0,
      fCollimatorSpotrms = 0, fCollimatorDistance = 0, fCollimatorDiameter = 0,
      fCollimatedFlux = False, fPolarizedFlux = False,
      fQ2theta2 = [], fQ2weight = []\<rparr>"

section \<open>Operations whose bodies are not in the header\<close>

text \<open>
  The header declares the constructor, \<^verbatim>\<open>setTargetCrystal\<close> and the rate functions, and
  their bodies are defined outside the header. What the specification says of their failing
  and forbidden cases is modelled below; the arithmetic on doubles that they perform
  otherwise is not described by the specification and is a parameter of each definition.
\<close>

text \<open>
  Modelled from the spec: the body of the constructor \<^verbatim>\<open>CobremsGenerator(Emax_GeV,
  Epeak_GeV)\<close> is missing. Section 6: both arguments must be positive and
  \<open>Epeak < Emax\<close>, else construction fails with an \<open>InvalidParameter\<close> condition. The
  object that a successful construction builds is the parameter \<open>init\<close>.
\<close>

definition CobremsGenerator_ctor ::
  "(real \<Rightarrow> real \<Rightarrow> CobremsGenerator) \<Rightarrow> real \<Rightarrow> real \<Rightarrow> error + CobremsGenerator" where
  "CobremsGenerator_ctor init Emax_GeV Epeak_GeV =
     (if 0 < Emax_GeV \<and> 0 < Epeak_GeV \<and> Epeak_GeV < Emax_GeV
      then Inr (init Emax_GeV Epeak_GeV)
      else Inl InvalidParameter)"

text \<open>
  Modelled from the spec: the body of \<^verbatim>\<open>setTargetCrystal\<close> and the table of supported
  crystals are missing. Section 4.1: the name is looked up in a fixed table; if it is
  absent the call fails with an \<open>UnknownCrystal\<close> condition and leaves the prior
  configuration unchanged. Section 3: selecting a crystal populates the descriptor from
  the table. The table is the parameter \<open>table\<close>, a list of names with their descriptors.
  The result is the condition raised, if any, and the object after the call.
\<close>

definition setTargetCrystal ::
  "(string \<times> crystal_parameters_t) list \<Rightarrow> string \<Rightarrow> CobremsGenerator
     \<Rightarrow> error option \<times> CobremsGenerator" where
  "setTargetCrystal table crystal s =
     (case map_of table crystal of
        None \<Rightarrow> (Some UnknownCrystal, s)
      | Some c \<Rightarrow> (None, s\<lparr>fTargetCrystal := c\<rparr>))"

text \<open>
  Modelled from the spec: the bodies of the rate functions are missing. Sections 4.3, 7
  and 8: a photon energy fraction \<open>x\<close> outside the open interval (0,1) is kinematically
  forbidden and yields the rate 0, which is not an error, in every rate function; a
  negative \<open>theta2\<close> is invalid input and is reported as \<open>OutOfRangeQuery\<close>. Section 8
  gives the zero rate for all \<open>x\<close> outside (0,1), hence the test on \<open>x\<close> comes first. The
  rate for \<open>x\<close> inside (0,1) is the parameter \<open>inside\<close>. The overloads of
  \<^verbatim>\<open>Rate_dNtdx\<close> and \<^verbatim>\<open>Rate_dNcdx\<close> with a collimator distance and diameter carry the
  suffix 3.
\<close>

definition Rate_dNtdx ::
  "(CobremsGenerator \<Rightarrow> real \<Rightarrow> real) \<Rightarrow> CobremsGenerator \<Rightarrow> real \<Rightarrow> error + real" where
  "Rate_dNtdx inside s x = (if 0 < x \<and> x < 1 then Inr (inside s x) else Inr 0)"

definition Rate_dNtdx3 ::
  "(CobremsGenerator \<Rightarrow> real \<Rightarrow> real \<Rightarrow> real \<Rightarrow> real) \<Rightarrow> CobremsGenerator
     \<Rightarrow> real \<Rightarrow> real \<Rightarrow> real \<Rightarrow> error + real" where
  "Rate_dNtdx3 inside s x distance_m diameter_m =
     (if 0 < x \<and> x < 1 then Inr (inside s x distance_m diameter_m) else Inr 0)"

definition Rate_dNcdx ::
  "(CobremsGenerator \<Rightarrow> real \<Rightarrow> real) \<Rightarrow> CobremsGenerator \<Rightarrow> real \<Rightarrow> error + real" where
  "Rate_dNcdx inside s x = (if 0 < x \<and> x < 1 then Inr (inside s x) else Inr 0)"

definition Rate_dNcdx3 ::
  "(CobremsGenerator \<Rightarrow> real \<Rightarrow> real \<Rightarrow> real \<Rightarrow> real) \<Rightarrow> CobremsGenerator
     \<Rightarrow> real \<Rightarrow> real \<Rightarrow> real \<Rightarrow> error + real" where
  "Rate_dNcdx3 inside s x distance_m diameter_m =
     (if 0 < x \<and> x < 1 then Inr (inside s x distance_m diameter_m) else Inr 0)"

definition Rate_dNcdxdp ::
  "(CobremsGenerator \<Rightarrow> real \<Rightarrow> real \<Rightarrow> real) \<Rightarrow> CobremsGenerator
     \<Rightarrow> real \<Rightarrow> real \<Rightarrow> error + real" where
  "Rate_dNcdxdp inside s x phi = (if 0 < x \<and> x < 1 then Inr (inside s x phi) else Inr 0)"

definition Rate_dNidx ::
  "(CobremsGenerator \<Rightarrow> real \<Rightarrow> real) \<Rightarrow> CobremsGenerator \<Rightarrow> real \<Rightarrow> error + real" where
  "Rate_dNidx inside s x = (if 0 < x \<and> x < 1 then Inr (inside s x) else Inr 0)"

definition Rate_dNBidx ::
  "(CobremsGenerator \<Rightarrow> real \<Rightarrow> real) \<Rightarrow> CobremsGenerator \<Rightarrow> real \<Rightarrow> error + real" where
  "Rate_dNBidx inside s x = (if 0 < x \<and> x < 1 then Inr (inside s x) else Inr 0)"

definition Rate_dNidxdt2 ::
  "(CobremsGenerator \<Rightarrow> real \<Rightarrow> real \<Rightarrow> real) \<Rightarrow> CobremsGenerator
     \<Rightarrow> real \<Rightarrow> real \<Rightarrow> error + real" where
  "Rate_dNidxdt2 inside s x theta2 =
     (if 0 < x \<and> x < 1
      then (if theta2 < 0 then Inl OutOfRangeQuery else Inr (inside s x theta2))
      else Inr 0)"

definition Rate_para ::
  "(CobremsGenerator \<Rightarrow> real \<Rightarrow> real \<Rightarrow> real \<Rightarrow> real) \<Rightarrow> CobremsGenerator
     \<Rightarrow> real \<Rightarrow> real \<Rightarrow> real \<Rightarrow> error + real" where
  "Rate_para inside s x theta2 phi =
     (if 0 < x \<and> x < 1
      then (if theta2 < 0 then Inl OutOfRangeQuery else Inr (inside s x theta2 phi))
      else Inr 0)"

definition Rate_ortho ::
  "(CobremsGenerator \<Rightarrow> real \<Rightarrow> real \<Rightarrow> real \<Rightarrow> real) \<Rightarrow> CobremsGenerator
     \<Rightarrow> real \<Rightarrow> real \<Rightarrow> real \<Rightarrow> error + real" where
  "Rate_ortho inside s x theta2 phi =
     (if 0 < x \<and> x < 1
      then (if theta2 < 0 then Inl OutOfRangeQuery else Inr (inside s x theta2 phi))
      else Inr 0)"

section \<open>Properties of the orientation methods\<close>

lemma orthonormal_identity: "orthonormal identity_Rmatrix"
  by (simp add: orthonormal_def identity_Rmatrix_def)

lemma reset_Rmatrix: "fTargetRmatrix (resetTargetOrientation s) = identity_Rmatrix"
  by (simp add: resetTargetOrientation_def identity_Rmatrix_def)

text \<open>
  C10. Frame of the four orientation methods, for every object and every argument.
  \<^verbatim>\<open>setTargetThetax\<close> stores its argument in \<open>fTargetThetax\<close> and writes nothing else:
  putting the old angle back gives the object of before the call, and in particular the
  rotation matrix is the one of before. The same holds for \<^verbatim>\<open>setTargetThetay\<close> with
  \<open>fTargetThetay\<close> and for \<^verbatim>\<open>setTargetThetaz\<close> with \<open>fTargetThetaz\<close>.
  \<^verbatim>\<open>resetTargetOrientation\<close> writes the cells of \<open>fTargetRmatrix\<close> only: putting the
  old matrix back gives the object of before the call, and in particular the three angles
  are the ones of before.
\<close>

theorem orientation_methods_frame:
  "fTargetThetax (setTargetThetax v s) = v \<and>
   (setTargetThetax v s)\<lparr>fTargetThetax := fTargetThetax s\<rparr> = s \<and>
   fTargetRmatrix (setTargetThetax v s) = fTargetRmatrix s \<and>
   fTargetThetay (setTargetThetay v s) = v \<and>
   (setTargetThetay v s)\<lparr>fTargetThetay := fTargetThetay s\<rparr> = s \<and>
   fTargetRmatrix (setTargetThetay v s) = fTargetRmatrix s \<and>
   fTargetThetaz (setTargetThetaz v s) = v \<and>
   (setTargetThetaz v s)\<lparr>fTargetThetaz := fTargetThetaz s\<rparr> = s \<and>
   fTargetRmatrix (setTargetThetaz v s) = fTargetRmatrix s \<and>
   (resetTargetOrientation s)\<lparr>fTargetRmatrix := fTargetRmatrix s\<rparr> = s \<and>
   fTargetThetax (resetTargetOrientation s) = fTargetThetax s \<and>
   fTargetThetay (resetTargetOrientation s) = fTargetThetay s \<and>
   fTargetThetaz (resetTargetOrientation s) = fTargetThetaz s"
  by (simp add: setTargetThetax_def setTargetThetay_def setTargetThetaz_def
      resetTargetOrientation_def)

text \<open>
  C2, as the header has it. After \<^verbatim>\<open>resetTargetOrientation\<close> the rotation matrix is the
  3x3 identity matrix, and each of the three angle fields holds the value it held before
  the call: the method assigns to the matrix only.
\<close>

theorem reset_identity_angles_kept:
  "fTargetRmatrix (resetTargetOrientation s) = identity_Rmatrix \<and>
   fTargetThetax (resetTargetOrientation s) = fTargetThetax s \<and>
   fTargetThetay (resetTargetOrientation s) = fTargetThetay s \<and>
   fTargetThetaz (resetTargetOrientation s) = fTargetThetaz s"
  by (simp add: resetTargetOrientation_def identity_Rmatrix_def)

text \<open>
  C2 as stated fails: on the object whose angle \<open>fTargetThetax\<close> was set to 1, the reset
  gives the identity matrix and leaves the angle at 1, so the angles are not all zero.
\<close>

theorem reset_zeroes_angles_counterexample:
  "\<not> (fTargetRmatrix (resetTargetOrientation (setTargetThetax 1 blank_generator))
        = identity_Rmatrix \<and>
      fTargetThetax (resetTargetOrientation (setTargetThetax 1 blank_generator)) = 0 \<and>
      fTargetThetay (resetTargetOrientation (setTargetThetax 1 blank_generator)) = 0 \<and>
      fTargetThetaz (resetTargetOrientation (setTargetThetax 1 blank_generator)) = 0)"
  by (simp add: resetTargetOrientation_def setTargetThetax_def blank_generator_def)

text \<open>
  C1, as the header has it. An angle mutator stores its argument in its angle field and
  leaves \<open>fTargetRmatrix\<close> as it was: the matrix is not regenerated from the stored
  angles, and it is orthonormal after the call exactly when it was orthonormal before the
  call. \<^verbatim>\<open>resetTargetOrientation\<close> overwrites the matrix with the identity matrix,
  whatever the stored angles are, and the matrix is orthonormal after that call.
\<close>

theorem orientation_matrix_after_call:
  "fTargetThetax (setTargetThetax v s) = v \<and>
   fTargetThetay (setTargetThetay v s) = v \<and>
   fTargetThetaz (setTargetThetaz v s) = v \<and>
   fTargetRmatrix (setTargetThetax v s) = fTargetRmatrix s \<and>
   fTargetRmatrix (setTargetThetay v s) = fTargetRmatrix s \<and>
   fTargetRmatrix (setTargetThetaz v s) = fTargetRmatrix s \<and>
   orthonormal (fTargetRmatrix (setTargetThetax v s)) = orthonormal (fTargetRmatrix s) \<and>
   orthonormal (fTargetRmatrix (setTargetThetay v s)) = orthonormal (fTargetRmatrix s) \<and>
   orthonormal (fTargetRmatrix (setTargetThetaz v s)) = orthonormal (fTargetRmatrix s) \<and>
   fTargetRmatrix (resetTargetOrientation s) = identity_Rmatrix \<and>
   orthonormal (fTargetRmatrix (resetTargetOrientation s))"
proof -
  have stored: "fTargetThetax (setTargetThetax v s) = v"
    "fTargetThetay (setTargetThetay v s) = v"
    "fTargetThetaz (setTargetThetaz v s) = v"
    by (simp_all add: setTargetThetax_def setTargetThetay_def setTargetThetaz_def)
  have kept: "fTargetRmatrix (setTargetThetax v s) = fTargetRmatrix s"
    "fTargetRmatrix (setTargetThetay v s) = fTargetRmatrix s"
    "fTargetRmatrix (setTargetThetaz v s) = fTargetRmatrix s"
    by (simp_all add: setTargetThetax_def setTargetThetay_def setTargetThetaz_def)
  have "orthonormal (fTargetRmatrix (resetTargetOrientation s))"
    by (simp only: reset_Rmatrix orthonormal_identity)
  with stored kept reset_Rmatrix [of s] show ?thesis
    by simp
qed

text \<open>
  C1 as stated fails. Take the object just reset: its three angles are 0 and its matrix
  is the identity. After \<^verbatim>\<open>setTargetThetax(1)\<close> the stored angles are (1, 0, 0), after
  \<^verbatim>\<open>setTargetThetax(2)\<close> they are (2, 0, 0), and in both objects the matrix is the
  identity of before the call: the matrix has not been regenerated from the stored
  angles, it is the one that belongs to the angles (0, 0, 0).
\<close>

theorem angle_mutator_regenerates_counterexample:
  "fTargetThetax (resetTargetOrientation blank_generator) = 0 \<and>
   fTargetThetay (resetTargetOrientation blank_generator) = 0 \<and>
   fTargetThetaz (resetTargetOrientation blank_generator) = 0 \<and>
   fTargetRmatrix (resetTargetOrientation blank_generator) = identity_Rmatrix \<and>
   fTargetThetax (setTargetThetax 1 (resetTargetOrientation blank_generator)) = 1 \<and>
   fTargetThetay (setTargetThetax 1 (resetTargetOrientation blank_generator)) = 0 \<and>
   fTargetThetaz (setTargetThetax 1 (resetTargetOrientation blank_generator)) = 0 \<and>
   fTargetRmatrix (setTargetThetax 1 (resetTargetOrientation blank_generator))
     = fTargetRmatrix (resetTargetOrientation blank_generator) \<and>
   fTargetRmatrix (setTargetThetax 1 (resetTargetOrientation blank_generator))
     = identity_Rmatrix \<and>
   fTargetThetax (setTargetThetax 2 (resetTargetOrientation blank_generator)) = 2 \<and>
   fTargetRmatrix (setTargetThetax 2 (resetTargetOrientation blank_generator))
     = identity_Rmatrix"
  by (simp add: setTargetThetax_def resetTargetOrientation_def blank_generator_def
      identity_Rmatrix_def)

section \<open>Validation in the constructor and the setters\<close>

text \<open>
  C6, as the header has it. Construction fails with \<open>InvalidParameter\<close> unless both
  arguments are positive and \<open>Epeak_GeV < Emax_GeV\<close> (the constructor as modelled from
  the specification). The setters defined in the header validate nothing: each stores the
  value it is given in its field, whatever the value, and has no failing path.
\<close>

theorem ctor_validates_setters_store:
  "(\<not> (0 < Emax_GeV \<and> 0 < Epeak_GeV \<and> Epeak_GeV < Emax_GeV) \<longrightarrow>
      CobremsGenerator_ctor init Emax_GeV Epeak_GeV = Inl InvalidParameter) \<and>
   fBeamEnergy (setBeamEnergy v s) = v \<and>
   fBeamErms (setBeamErms v s) = v \<and>
   fBeamEmittance (setBeamEmittance v s) = v \<and>
   fCollimatorSpotrms (setCollimatorSpotrms v s) = v \<and>
   fCollimatorDistance (setCollimatorDistance v s) = v \<and>
   fCollimatorDiameter (setCollimatorDiameter v s) = v \<and>
   fTargetThickness (setTargetThickness v s) = v \<and>
   fTargetThetax (setTargetThetax v s) = v \<and>
   fTargetThetay (setTargetThetay v s) = v \<and>
   fTargetThetaz (setTargetThetaz v s) = v \<and>
   fCollimatedFlux (setCollimatedFlux b s) = b \<and>
   fPolarizedFlux (setPolarizedFlux b s) = b"
  by (simp add: CobremsGenerator_ctor_def setBeamEnergy_def setBeamErms_def
      setBeamEmittance_def setCollimatorSpotrms_def setCollimatorDistance_def
      setCollimatorDiameter_def setTargetThickness_def setTargetThetax_def
      setTargetThetay_def setTargetThetaz_def setCollimatedFlux_def setPolarizedFlux_def)

text \<open>
  The theorem at a peak energy above the maximum energy, where construction fails, and at
  a thickness of -1, which is stored.
\<close>

theorem ctor_validates_setters_store_witness:
  "\<not> ((0::real) < 12 \<and> (0::real) < 13 \<and> (13::real) < 12) \<and>
   CobremsGenerator_ctor (\<lambda>Emax Epeak. blank_generator) 12 13 = Inl InvalidParameter \<and>
   fTargetThickness (setTargetThickness (- 1) blank_generator) = - 1"
  using ctor_validates_setters_store
    [of 12 13 "\<lambda>Emax Epeak. blank_generator" "- 1" blank_generator]
  by simp

text \<open>
  C6 as stated fails: \<^verbatim>\<open>setTargetThickness(-1)\<close> and \<^verbatim>\<open>setBeamEnergy(-1)\<close> return
  with the negative value stored in the object, where the claim has them fail.
\<close>

theorem setter_negative_counterexample:
  "setTargetThickness (- 1) blank_generator = blank_generator\<lparr>fTargetThickness := - 1\<rparr> \<and>
   fTargetThickness (setTargetThickness (- 1) blank_generator) < 0 \<and>
   setBeamEnergy (- 1) blank_generator = blank_generator\<lparr>fBeamEnergy := - 1\<rparr> \<and>
   fBeamEnergy (setBeamEnergy (- 1) blank_generator) < 0"
  by (simp add: setTargetThickness_def setBeamEnergy_def)

section \<open>Unknown crystal names\<close>

text \<open>
  C5. For every crystal name that is not in the table of supported crystals,
  \<^verbatim>\<open>setTargetCrystal\<close> fails with the condition \<open>UnknownCrystal\<close>, and the object after
  the call is the object of before the call, crystal descriptor and every other field.
\<close>

theorem setTargetCrystal_unknown:
  "crystal \<notin> fst ` set table \<Longrightarrow>
     setTargetCrystal table crystal s = (Some UnknownCrystal, s)"
proof -
  assume "crystal \<notin> fst ` set table"
  then have "map_of table crystal = None"
    by (simp add: map_of_eq_None_iff)
  then show ?thesis
    by (simp add: setTargetCrystal_def)
qed

text \<open>The theorem with a table that holds diamond only, asked for silicon.\<close>

theorem setTargetCrystal_unknown_witness:
  "''silicon'' \<notin> fst ` set [(''diamond'', blank_crystal\<lparr>name := ''diamond''\<rparr>)] \<and>
   setTargetCrystal [(''diamond'', blank_crystal\<lparr>name := ''diamond''\<rparr>)] ''silicon''
       blank_generator
     = (Some UnknownCrystal, blank_generator)"
proof -
  have absent: "''silicon'' \<notin> fst ` set [(''diamond'', blank_crystal\<lparr>name := ''diamond''\<rparr>)]"
    by simp
  from absent setTargetCrystal_unknown [OF absent, of blank_generator] show ?thesis
    by simp
qed

section \<open>Kinematically forbidden photon energies\<close>

text \<open>
  C4. For every \<open>x\<close> outside the open interval (0,1), that is \<open>x \<le> 0\<close> or \<open>1 \<le> x\<close>,
  every rate function returns the value 0 and reports no error, whatever its other
  arguments are.
\<close>

theorem rate_zero_outside_unit_interval:
  "x \<le> 0 \<or> 1 \<le> x \<Longrightarrow>
     Rate_dNtdx f1 s x = Inr 0 \<and>
     Rate_dNtdx3 g1 s x distance_m diameter_m = Inr 0 \<and>
     Rate_dNcdx f2 s x = Inr 0 \<and>
     Rate_dNcdx3 g2 s x distance_m diameter_m = Inr 0 \<and>
     Rate_dNcdxdp f3 s x phi = Inr 0 \<and>
     Rate_dNidx f4 s x = Inr 0 \<and>
     Rate_dNBidx f5 s x = Inr 0 \<and>
     Rate_dNidxdt2 f6 s x theta2 = Inr 0 \<and>
     Rate_para f7 s x theta2 phi = Inr 0 \<and>
     Rate_ortho f8 s x theta2 phi = Inr 0"
  by (auto simp add: Rate_dNtdx_def Rate_dNtdx3_def Rate_dNcdx_def Rate_dNcdx3_def
      Rate_dNcdxdp_def Rate_dNidx_def Rate_dNBidx_def Rate_dNidxdt2_def Rate_para_def
      Rate_ortho_def)

text \<open>The theorem at \<open>x = 1\<close>, the upper end of the interval, with rates that are 1 inside.\<close>

theorem rate_zero_outside_unit_interval_witness:
  "((1::real) \<le> 0 \<or> (1::real) \<le> 1) \<and>
   Rate_dNtdx (\<lambda>s x. 1) blank_generator 1 = Inr 0 \<and>
   Rate_dNcdx (\<lambda>s x. 1) blank_generator 1 = Inr 0 \<and>
   Rate_dNidxdt2 (\<lambda>s x t. 1) blank_generator 1 (- 1) = Inr 0 \<and>
   Rate_para (\<lambda>s x t p. 1) blank_generator 1 0 0 = Inr 0"
proof -
  have outside: "(1::real) \<le> 0 \<or> (1::real) \<le> 1"
    by simp
  from rate_zero_outside_unit_interval
    [OF outside, of "\<lambda>s x. 1" blank_generator "\<lambda>s x d1 d2. 1" 0 0 "\<lambda>s x. 1"
       "\<lambda>s x d1 d2. 1" "\<lambda>s x p. 1" 0 "\<lambda>s x. 1" "\<lambda>s x. 1" "\<lambda>s x t. 1" "- 1"
       "\<lambda>s x t p. 1" "\<lambda>s x t p. 1"]
  have "Rate_dNtdx (\<lambda>s x. 1) blank_generator 1 = Inr 0"
    "Rate_dNcdx (\<lambda>s x. 1) blank_generator 1 = Inr 0"
    "Rate_dNidxdt2 (\<lambda>s x t. 1) blank_generator 1 (- 1) = Inr 0"
    by simp_all
  moreover from rate_zero_outside_unit_interval
    [OF outside, of "\<lambda>s x. 1" blank_generator "\<lambda>s x d1 d2. 1" 0 0 "\<lambda>s x. 1"
       "\<lambda>s x d1 d2. 1" "\<lambda>s x p. 1" 0 "\<lambda>s x. 1" "\<lambda>s x. 1" "\<lambda>s x t. 1" 0
       "\<lambda>s x t p. 1" "\<lambda>s x t p. 1"]
  have "Rate_para (\<lambda>s x t p. 1) blank_generator 1 0 0 = Inr 0"
    by simp
  ultimately show ?thesis
    using outside by simp
qed

end
